theory Spec2Isabelle
  imports Main "HOL-Library.Sublist" "HOL-Library.Word"
begin

section \<open>Go errors, panics and blocking\<close>

text \<open>
  A Go \<^verbatim>\<open>error\<close> built by \<^verbatim>\<open>fmt.Errorf\<close> is either a plain
  message or, with the verb \<^verbatim>\<open>%w\<close>, a wrapper around another error: the
  wrapper's message is the text before the verb, the wrapped error's message and the
  text after the verb. A nil error is \<open>None\<close>.
\<close>

datatype gerror = Errorf string | Wrapf string gerror string

fun Error :: "gerror \<Rightarrow> string" where
  "Error (Errorf m) = m"
| "Error (Wrapf before e after) = before @ Error e @ after"

fun Unwrap :: "gerror \<Rightarrow> gerror option" where
  "Unwrap (Errorf m) = None"
| "Unwrap (Wrapf before e after) = Some e"

text \<open>
  What a call can do besides returning: panic (with an error value, or by a nil
  dereference or an assignment to an entry of a nil map), or block for ever on a channel.
\<close>

datatype panic = PanicError gerror | NilDereference | NilMapAssignment

datatype 'a outcome = Panic panic | Blocked | Return 'a

section \<open>storage.go: backend selection\<close>

definition MongoType :: "8 word" where
  "MongoType = 0"

definition PostgresType :: "8 word" where
  "PostgresType = 1"

definition ErrDNSNotSupported :: gerror where
  "ErrDNSNotSupported = Errorf ''dns is not supported''"

definition DNSNotSupportedError :: "string \<Rightarrow> gerror" where
  "DNSNotSupportedError connStr = Wrapf [] ErrDNSNotSupported ('': '' @ connStr)"

definition Scheme :: "8 word \<Rightarrow> string" where
  "Scheme t =
     (if t = MongoType then ''mongodb''
      else if t = PostgresType then ''postgresql''
      else ''unknown'')"

text \<open>\<^verbatim>\<open>strings.Contains(s, substr)\<close>: \<open>substr\<close> occurs in \<open>s\<close> at some position.\<close>

fun Contains :: "string \<Rightarrow> string \<Rightarrow> bool" where
  "Contains [] substr = (substr = [])"
| "Contains (c # s) substr = (prefix substr (c # s) \<or> Contains s substr)"

text \<open>
  The document-store handle. \<open>'c\<close> is the driver's client; the lifetime is a
  \<^verbatim>\<open>time.Duration\<close>, a number of nanoseconds.
\<close>

record 'c Mongo =
  Client :: 'c
  dns :: string
  lifetime :: int

definition defaultMDBLifetime :: int where
  "defaultMDBLifetime = 60 * 1000000000"

text \<open>
  \<^verbatim>\<open>NewMongo\<close>; the driver's \<^verbatim>\<open>mongo.Connect\<close> on the options of the
  URI is the parameter \<open>Connect\<close>.
\<close>

definition NewMongo :: "(string \<Rightarrow> gerror + 'c) \<Rightarrow> string \<Rightarrow> gerror + 'c Mongo" where
  "NewMongo Connect uri =
     (case Connect uri of
        Inl err \<Rightarrow> Inl (Wrapf ''error connecting to mongo: '' err [])
      | Inr client \<Rightarrow> Inr \<lparr>Client = client, dns = uri, lifetime = defaultMDBLifetime\<rparr>)"

text \<open>
  The \<^verbatim>\<open>Storage\<close> interface has two implementations. The relational one and its
  constructor \<^verbatim>\<open>NewPostgres\<close> are in another file of the package: the handle is
  the type \<open>'p\<close> and the constructor a parameter.
\<close>

datatype ('c, 'p) Storage = MongoStorage "'c Mongo" | PostgresStorage 'p

definition New ::
  "(string \<Rightarrow> gerror + 'c) \<Rightarrow> (string \<Rightarrow> gerror + 'p) \<Rightarrow> string \<Rightarrow> gerror + ('c, 'p) Storage"
where
  "New Connect NewPostgres connStr =
     (if Contains connStr (Scheme MongoType) then
        map_sum id MongoStorage (NewMongo Connect connStr)
      else if Contains connStr (Scheme PostgresType) then
        map_sum id PostgresStorage (NewPostgres connStr)
      else Inl (DNSNotSupportedError connStr))"

section \<open>mongo.go: the transaction worker\<close>

text \<open>
  The backend is a state of type \<open>'s\<close>. The driver's session context is the three calls
  the worker makes on it; each returns an error or nil and the backend as it leaves it.
\<close>

record 's SessionContext =
  StartTransaction :: "'s \<Rightarrow> gerror option \<times> 's"
  CommitTransaction :: "'s \<Rightarrow> gerror option \<times> 's"
  AbortTransaction :: "'s \<Rightarrow> gerror option \<times> 's"

text \<open>An operation queued on a transaction (\<^verbatim>\<open>TxnChanFn\<close>).\<close>

type_synonym 's TxnChanFn = "'s \<Rightarrow> gerror option \<times> 's"

text \<open>
  What the worker can observe while it ranges over \<^verbatim>\<open>txn.ch\<close>, in the order it
  happens: the lifetime ticker puts a tick into its channel, a producer's value is
  received from the unbuffered operation channel, or the channel is closed. A history that
  ends without \<open>Close\<close> leaves the worker blocked on the channel.
\<close>

datatype 's chan_event = Tick | Send "'s TxnChanFn" | Close

text \<open>
  The variables of the loop: whether the ticker's channel (of capacity one) holds a tick,
  the variable \<^verbatim>\<open>err\<close>, and the backend.
\<close>

record 's worker =
  ticked :: bool
  err :: "gerror option"
  backend :: 's

text \<open>
  The body of the loop of \<^verbatim>\<open>receiveWrites\<close> for one received operation: the
  \<^verbatim>\<open>select\<close> takes the ticker's case when a tick is there, and \<^verbatim>\<open>default\<close>
  otherwise. \<open>Inl\<close> is a panic.
\<close>

definition receive :: "'s SessionContext \<Rightarrow> 's TxnChanFn \<Rightarrow> 's worker \<Rightarrow> (panic \<times> 's) + 's worker" where
  "receive ctx opr w =
     (if ticked w then
        (case CommitTransaction ctx (backend w) of
           (Some e, s1) \<Rightarrow> Inl (PanicError (Wrapf ''commit transaction: '' e []), s1)
         | (None, s1) \<Rightarrow>
            (case StartTransaction ctx s1 of
               (Some e, s2) \<Rightarrow> Inl (PanicError (Wrapf ''error starting transaction: '' e []), s2)
             | (None, s2) \<Rightarrow> Inr (w\<lparr>ticked := False, backend := s2\<rparr>)))
      else if err w \<noteq> None then Inr w
      else (case opr (backend w) of (e, s1) \<Rightarrow> Inr (w\<lparr>err := e, backend := s1\<rparr>)))"

fun receiveWrites_loop ::
  "'s SessionContext \<Rightarrow> 's chan_event list \<Rightarrow> 's worker \<Rightarrow> gerror option outcome \<times> 's"
where
  "receiveWrites_loop ctx [] w = (Blocked, backend w)"
| "receiveWrites_loop ctx (Close # evs) w = (Return (err w), backend w)"
| "receiveWrites_loop ctx (Tick # evs) w = receiveWrites_loop ctx evs (w\<lparr>ticked := True\<rparr>)"
| "receiveWrites_loop ctx (Send opr # evs) w =
     (case receive ctx opr w of
        Inl (p, s) \<Rightarrow> (Panic p, s)
      | Inr w' \<Rightarrow> receiveWrites_loop ctx evs w')"

text \<open>
  \<^verbatim>\<open>receiveWrites\<close> makes the ticker from the lifetime of the handle, which
  \<^verbatim>\<open>NewMongo\<close> sets to sixty seconds; its firings are the \<open>Tick\<close>s of the history.
  After the loop, a latched error is returned with its context.
\<close>

definition in_transaction :: "gerror option \<Rightarrow> gerror option" where
  "in_transaction r = (case r of None \<Rightarrow> None | Some e \<Rightarrow> Some (Wrapf ''error in transaction: '' e []))"

definition receiveWrites ::
  "'s SessionContext \<Rightarrow> 's chan_event list \<Rightarrow> 's \<Rightarrow> gerror option outcome \<times> 's"
where
  "receiveWrites ctx ch s =
     (case receiveWrites_loop ctx ch \<lparr>ticked = False, err = None, backend = s\<rparr> of
        (out, s') \<Rightarrow> (map_outcome in_transaction out, s'))"

text \<open>
  The loop's variables once a history has been consumed, when the loop is still running
  then (it has neither panicked nor seen the channel closed).
\<close>

fun worker_after :: "'s SessionContext \<Rightarrow> 's chan_event list \<Rightarrow> 's worker \<Rightarrow> 's worker option" where
  "worker_after ctx [] w = Some w"
| "worker_after ctx (Close # evs) w = None"
| "worker_after ctx (Tick # evs) w = worker_after ctx evs (w\<lparr>ticked := True\<rparr>)"
| "worker_after ctx (Send opr # evs) w =
     (case receive ctx opr w of Inl x \<Rightarrow> None | Inr w' \<Rightarrow> worker_after ctx evs w')"



text \<open>
  The value a receive from \<^verbatim>\<open>txn.commit\<close> finds: a boolean sent by the caller,
  the zero value of a closed channel, or nothing ever.
\<close>

datatype commit_signal = Signal bool | ChanClosed | NoSignal

text \<open>
  The callback that \<^verbatim>\<open>startSession\<close> passes to \<^verbatim>\<open>UseSession\<close>. The
  variable \<^verbatim>\<open>ErrTransactionAborted\<close> is declared in another file of the package,
  and is a parameter.
\<close>

definition session_fn ::
  "gerror \<Rightarrow> 's chan_event list \<Rightarrow> commit_signal \<Rightarrow> 's SessionContext \<Rightarrow> 's \<Rightarrow>
     gerror option outcome \<times> 's"
where
  "session_fn ErrTransactionAborted ch commit sctx s =
     (case StartTransaction sctx s of
        (Some e, s1) \<Rightarrow> (Return (Some (Wrapf ''error starting transaction: '' e [])), s1)
      | (None, s1) \<Rightarrow>
         (case receiveWrites sctx ch s1 of
            (Panic p, s2) \<Rightarrow> (Panic p, s2)
          | (Blocked, s2) \<Rightarrow> (Blocked, s2)
          | (Return (Some e), s2) \<Rightarrow> (Return (Some (Wrapf ''error receiving writes: '' e [])), s2)
          | (Return None, s2) \<Rightarrow>
             (case commit of
                NoSignal \<Rightarrow> (Blocked, s2)
              | Signal True \<Rightarrow>
                 (case CommitTransaction sctx s2 of
                    (Some e, s3) \<Rightarrow> (Return (Some (Wrapf ''commit transaction: '' e [])), s3)
                  | (None, s3) \<Rightarrow> (Return None, s3))
              | _ \<Rightarrow>
                 (case AbortTransaction sctx s2 of
                    (Some e, s3) \<Rightarrow> (Return (Some ErrTransactionAborted), s3)
                  | (None, s3) \<Rightarrow> (Return None, s3)))))"

text \<open>
  The driver's client, as far as \<^verbatim>\<open>UseSession\<close> goes: it starts a session, runs
  the callback on the session's context and ends the session when the callback is left,
  by a return or by a panic.
\<close>

record 's SessionClient =
  StartSession :: "'s \<Rightarrow> gerror option \<times> 's"
  EndSession :: "'s \<Rightarrow> 's"
  NewSessionContext :: "'s SessionContext"

definition UseSession ::
  "'s SessionClient \<Rightarrow> ('s SessionContext \<Rightarrow> 's \<Rightarrow> gerror option outcome \<times> 's) \<Rightarrow> 's \<Rightarrow>
     gerror option outcome \<times> 's"
where
  "UseSession client fn s =
     (case StartSession client s of
        (Some e, s1) \<Rightarrow> (Return (Some e), s1)
      | (None, s1) \<Rightarrow>
         (case fn (NewSessionContext client) s1 of
            (Blocked, s2) \<Rightarrow> (Blocked, s2)
          | (out, s2) \<Rightarrow> (out, EndSession client s2)))"

text \<open>
  Of a \<^verbatim>\<open>Txn\<close> the state kept here is the content of its channel
  \<^verbatim>\<open>done\<close>, of capacity one; what happens on its channels \<^verbatim>\<open>ch\<close> and
  \<^verbatim>\<open>commit\<close> is given by a history and a signal.
\<close>

record Txn =
  txn_done :: "gerror option list"

definition startSession ::
  "'s SessionClient Mongo \<Rightarrow> gerror \<Rightarrow> 's chan_event list \<Rightarrow> commit_signal \<Rightarrow> Txn \<Rightarrow> 's \<Rightarrow>
     unit outcome \<times> Txn \<times> 's"
where
  "startSession m ErrTransactionAborted ch commit txn s =
     (case UseSession (Client m) (session_fn ErrTransactionAborted ch commit) s of
        (Panic p, s') \<Rightarrow> (Panic p, txn, s')
      | (Blocked, s') \<Rightarrow> (Blocked, txn, s')
      | (Return r, s') \<Rightarrow>
         (if length (txn_done txn) < 1 then (Return (), txn\<lparr>txn_done := txn_done txn @ [r]\<rparr>, s')
          else (Blocked, txn, s')))"

text \<open>
  \<^verbatim>\<open>StartTx\<close> makes the three channels, empty, and starts \<^verbatim>\<open>startSession\<close>
  on them in a goroutine of its own; \<open>worker\<close> is that goroutine's whole run.
\<close>

definition StartTx :: "Txn \<times> gerror option" where
  "StartTx = (\<lparr>txn_done = []\<rparr>, None)"

definition StartTx_worker ::
  "'s SessionClient Mongo \<Rightarrow> gerror \<Rightarrow> 's chan_event list \<Rightarrow> commit_signal \<Rightarrow> 's \<Rightarrow>
     unit outcome \<times> Txn \<times> 's"
where
  "StartTx_worker m ErrTransactionAborted ch commit s =
     startSession m ErrTransactionAborted ch commit (fst StartTx) s"

text \<open>
  A backend for examples: it records, in order, the transactions begun, committed and
  aborted and the operations applied, each operation under its number.
\<close>

datatype entry = Begun | Committed | Aborted | Applied nat

definition log_sctx :: "entry list SessionContext" where
  "log_sctx = \<lparr>StartTransaction = (\<lambda>s. (None, s @ [Begun])),
               CommitTransaction = (\<lambda>s. (None, s @ [Committed])),
               AbortTransaction = (\<lambda>s. (None, s @ [Aborted]))\<rparr>"

definition log_mongo :: "entry list SessionClient Mongo" where
  "log_mongo = \<lparr>Client = \<lparr>StartSession = (\<lambda>s. (None, s)), EndSession = (\<lambda>s. s),
                            NewSessionContext = log_sctx\<rparr>,
                dns = ''mongodb://localhost'', lifetime = defaultMDBLifetime\<rparr>"

definition apply_ok :: "nat \<Rightarrow> entry list TxnChanFn" where
  "apply_ok n = (\<lambda>s. (None, s @ [Applied n]))"


section \<open>mongo.go: Upsert\<close>

text \<open>
  The response of the wire protocol and, of the driver's result of a bulk write, the two
  counts that \<^verbatim>\<open>Upsert\<close> reads; both are signed 64-bit integers.
\<close>

record UpsertResponse =
  MatchedCount :: "64 word"
  UpsertedCount :: "64 word"

record BulkWriteResult =
  bulk_MatchedCount :: "64 word"
  bulk_UpsertedCount :: "64 word"

text \<open>
  The write model built for one record by \<^verbatim>\<open>NewUpdateOneModel\<close> and its three
  setters: the document is the filter, the update sets the document, and the upsert flag
  is on.
\<close>

record 'doc UpdateOneModel =
  Filter :: 'doc
  Update :: "(string \<times> 'doc) list"
  SetUpsert :: bool

definition NewUpdateOneModel :: "'doc \<Rightarrow> 'doc UpdateOneModel" where
  "NewUpdateOneModel doc = \<lparr>Filter = doc, Update = [(''$set'', doc)], SetUpsert = True\<rparr>"

text \<open>
  What \<^verbatim>\<open>Upsert\<close> calls outside this file, as parameters: the two functions of
  the package \<^verbatim>\<open>tools\<close>, the driver's parser of connection strings (of which the
  database name is used), the table of the request, and the collection's bulk write on the
  backend \<open>'s\<close>.
\<close>

record ('q, 'r, 'doc, 's) upsert_env =
  DecodeUpsertRecords :: "'q \<Rightarrow> gerror + 'r list"
  AssingRecordBSONDocument :: "'r \<Rightarrow> gerror + 'doc"
  ParseAndValidate :: "string \<Rightarrow> gerror + string"
  request_Table :: "'q \<Rightarrow> string"
  BulkWrite :: "string \<Rightarrow> string \<Rightarrow> 'doc UpdateOneModel list \<Rightarrow> 's \<Rightarrow> (gerror + BulkWriteResult) \<times> 's"

text \<open>The loop of \<^verbatim>\<open>Upsert\<close> over the records.\<close>

fun Upsert_models ::
  "('r \<Rightarrow> gerror + 'doc) \<Rightarrow> 'r list \<Rightarrow> 'doc UpdateOneModel list \<Rightarrow> gerror + 'doc UpdateOneModel list"
where
  "Upsert_models assign [] models = Inr models"
| "Upsert_models assign (record # records) models =
     (case assign record of
        Inl e \<Rightarrow> Inl (Wrapf ''failed to assign record to bson document: '' e [])
      | Inr doc \<Rightarrow> Upsert_models assign records (models @ [NewUpdateOneModel doc]))"

definition Upsert ::
  "('q, 'r, 'doc, 's) upsert_env \<Rightarrow> 'c Mongo \<Rightarrow> 'q \<Rightarrow> 's \<Rightarrow> (gerror + UpsertResponse) \<times> 's"
where
  "Upsert env m req s =
     (case DecodeUpsertRecords env req of
        Inl e \<Rightarrow> (Inl (Wrapf ''failed to decode records: '' e []), s)
      | Inr records \<Rightarrow>
         (if length records = 0 then (Inr \<lparr>MatchedCount = 0, UpsertedCount = 0\<rparr>, s)
          else
            (case Upsert_models (AssingRecordBSONDocument env) records [] of
               Inl e \<Rightarrow> (Inl e, s)
             | Inr models \<Rightarrow>
                (case ParseAndValidate env (dns m) of
                   Inl e \<Rightarrow> (Inl (Wrapf ''failed to parse connection string: '' e []), s)
                 | Inr database \<Rightarrow>
                    (case BulkWrite env database (request_Table env req) models s of
                       (Inl e, s') \<Rightarrow> (Inl (Wrapf ''bulk write error: '' e []), s')
                     | (Inr bwr, s') \<Rightarrow>
                        (Inr \<lparr>MatchedCount = bulk_MatchedCount bwr,
                              UpsertedCount = bulk_UpsertedCount bwr\<rparr>, s'))))))"

text \<open>
  A backend for examples: the list of the bulk writes issued, each with its database,
  its collection and the number of its models; a bulk write reports every model as
  upserted.
\<close>

definition example_upsert_env ::
  "(string \<times> nat list, nat, nat, (string \<times> string \<times> nat) list) upsert_env"
where
  "example_upsert_env =
     \<lparr>DecodeUpsertRecords = (\<lambda>req. Inr (snd req)),
      AssingRecordBSONDocument = (\<lambda>r. Inr r),
      ParseAndValidate = (\<lambda>uri. Inr ''db''),
      request_Table = fst,
      BulkWrite = (\<lambda>database collection models s.
        (Inr \<lparr>bulk_MatchedCount = 0, bulk_UpsertedCount = of_nat (length models)\<rparr>,
         s @ [(database, collection, length models)]))\<rparr>"

section \<open>request.go: flattening requests\<close>

text \<open>
  Go maps and pointers are references. The store holds the objects that flattening shares
  or allocates: the query maps, under their references, and the rate limiters made so far,
  a limiter's reference being its position.
\<close>

type_synonym ref = nat

record Limiter =
  every :: int
  burst :: int

record store =
  maps :: "ref \<rightharpoonup> (string \<rightharpoonup> string)"
  limiters :: "Limiter list"

definition query_of :: "store \<Rightarrow> ref \<Rightarrow> (string \<rightharpoonup> string)" where
  "query_of st r = (case maps st r of None \<Rightarrow> Map.empty | Some q \<Rightarrow> q)"

text \<open>The assignment \<^verbatim>\<open>q[key] = value\<close> on the map that \<open>r\<close> refers to.\<close>

definition set_query :: "ref \<Rightarrow> string \<Rightarrow> string \<Rightarrow> store \<Rightarrow> store" where
  "set_query r key v st = st\<lparr>maps := (maps st)(r \<mapsto> (query_of st r)(key \<mapsto> v))\<rparr>"

text \<open>\<^verbatim>\<open>rate.NewLimiter(rate.Every(period), burst)\<close> makes a new limiter.\<close>

definition NewLimiter :: "int \<Rightarrow> int \<Rightarrow> store \<Rightarrow> ref \<times> store" where
  "NewLimiter period b st =
     (length (limiters st), st\<lparr>limiters := limiters st @ [\<lparr>every = period, burst = b\<rparr>]\<rparr>)"

text \<open>
  The types \<^verbatim>\<open>RateLimitConfig\<close> and \<^verbatim>\<open>timeseries\<close> are declared in
  other files of the package; their fields are the ones that
  \<^verbatim>\<open>request.go\<close> reads, a pointer being an option. A chunk is a pair of times, of
  a type \<open>'t\<close>.
\<close>

record RateLimitConfig =
  Period :: "int option"
  Burst :: "int option"

record 't timeseries =
  StartName :: string
  EndName :: string
  Layout :: "string option"
  chunks :: "('t \<times> 't) list"

record 't Request =
  Method :: string
  Endpoint :: string
  Query :: "ref option"
  Timeseries :: "'t timeseries option"
  Table :: "string option"
  RateLimitConfig :: "RateLimitConfig option"

text \<open>
  A parsed URL: its query, kept as the values it decodes to
  (\<^verbatim>\<open>uri.Query()\<close>, and \<^verbatim>\<open>query.Encode()\<close> back), and the rest.
\<close>

record URL =
  Location :: string
  RawQuery :: "string \<rightharpoonup> string list"

text \<open>
  \<^verbatim>\<open>web.FetchConfig\<close>; its field \<^verbatim>\<open>Method\<close> is \<open>FetchMethod\<close> here,
  and the limiter is a reference into the store.
\<close>

record 'c FetchConfig =
  FetchMethod :: string
  URL :: URL
  C :: 'c
  RateLimiter :: ref

record 'c flattenedRequest =
  fetchConfig :: "'c FetchConfig"
  table :: "string option"

text \<open>
  The library functions that flattening calls, as parameters:
  \<^verbatim>\<open>url.JoinPath\<close>, \<^verbatim>\<open>url.Parse\<close> and \<^verbatim>\<open>time.Time.Format\<close>.
\<close>

record 't url_env =
  JoinPath :: "string \<Rightarrow> string \<Rightarrow> gerror + string"
  Parse :: "string \<Rightarrow> gerror + URL"
  Format :: "'t \<Rightarrow> string \<Rightarrow> string"

text \<open>
  \<^verbatim>\<open>query.Set(key, value)\<close> for every entry of the request's query: each key of
  the request's map gets that single value, the other keys keep theirs.
\<close>

definition set_all :: "(string \<rightharpoonup> string) \<Rightarrow> (string \<rightharpoonup> string list) \<Rightarrow> (string \<rightharpoonup> string list)" where
  "set_all q vals = (\<lambda>key. case q key of None \<Rightarrow> vals key | Some v \<Rightarrow> Some [v])"

definition newFetchConfig ::
  "'t url_env \<Rightarrow> 't Request \<Rightarrow> string \<Rightarrow> 'c \<Rightarrow> store \<Rightarrow> (gerror + 'c FetchConfig) outcome \<times> store"
where
  "newFetchConfig env req rawURI client st =
     (case JoinPath env rawURI (Endpoint req) of
        Inl e \<Rightarrow> (Return (Inl (Wrapf ''failed to join URI and endpoint: '' e [])), st)
      | Inr rawURIWithEndpoint \<Rightarrow>
         (case Parse env rawURIWithEndpoint of
            Inl e \<Rightarrow> (Return (Inl (Wrapf ''failed to parse URL: '' e [])), st)
          | Inr uri \<Rightarrow>
             (let uri' = (case Query req of
                            None \<Rightarrow> uri
                          | Some r \<Rightarrow> uri\<lparr>RawQuery := set_all (query_of st r) (RawQuery uri)\<rparr>)
              in case RateLimitConfig req of
                   None \<Rightarrow> (Panic NilDereference, st)
                 | Some config \<Rightarrow>
                    (case Period config of
                       None \<Rightarrow> (Panic NilDereference, st)
                     | Some period \<Rightarrow>
                        (case Burst config of
                           None \<Rightarrow> (Panic NilDereference, st)
                         | Some b \<Rightarrow>
                            (case NewLimiter period b st of
                               (rateLimiter, st') \<Rightarrow>
                                 (Return (Inr \<lparr>FetchMethod = Method req, URL = uri', C = client,
                                               RateLimiter = rateLimiter\<rparr>), st')))))))"

definition flatten ::
  "'t url_env \<Rightarrow> 't Request \<Rightarrow> string \<Rightarrow> 'c \<Rightarrow> store \<Rightarrow> (gerror + 'c flattenedRequest) outcome \<times> store"
where
  "flatten env req rawURI client st =
     (case newFetchConfig env req rawURI client st of
        (Return (Inl e), st') \<Rightarrow> (Return (Inl (Wrapf ''failed to create fetch config: '' e [])), st')
      | (Return (Inr fc), st') \<Rightarrow> (Return (Inr \<lparr>fetchConfig = fc, table = Table req\<rparr>), st')
      | (Panic p, st') \<Rightarrow> (Panic p, st')
      | (Blocked, st') \<Rightarrow> (Blocked, st'))"

text \<open>
  The loop of \<^verbatim>\<open>flattenTimeseries\<close> over the chunks. \<^verbatim>\<open>chunkReq := req\<close>
  copies the pointer: \<^verbatim>\<open>chunkReq.Query\<close> is the request's own map, and the two
  assignments write to it. What the function returns is the pair of the list and the
  error; a nil list is the empty list.
\<close>

fun flattenTimeseries_loop ::
  "'t url_env \<Rightarrow> 't Request \<Rightarrow> 't timeseries \<Rightarrow> string \<Rightarrow> 'c \<Rightarrow> ('t \<times> 't) list \<Rightarrow>
     'c flattenedRequest list \<Rightarrow> store \<Rightarrow> ('c flattenedRequest list \<times> gerror option) outcome \<times> store"
where
  "flattenTimeseries_loop env req ts rawURI client [] requests st = (Return (requests, None), st)"
| "flattenTimeseries_loop env req ts rawURI client (chunk # rest) requests st =
     (case Layout ts of
        None \<Rightarrow> (Panic NilDereference, st)
      | Some layout \<Rightarrow>
         (case Query req of
            None \<Rightarrow> (Panic NilMapAssignment, st)
          | Some r \<Rightarrow>
             (let st1 = set_query r (StartName ts) (Format env (fst chunk) layout) st;
                  st2 = set_query r (EndName ts) (Format env (snd chunk) layout) st1
              in case newFetchConfig env req rawURI client st2 of
                   (Return (Inl e), st3) \<Rightarrow>
                     (Return ([], Some (Wrapf ''failed to create fetch config: '' e [])), st3)
                 | (Return (Inr fc), st3) \<Rightarrow>
                     flattenTimeseries_loop env req ts rawURI client rest
                       (requests @ [\<lparr>fetchConfig = fc, table = Table req\<rparr>]) st3
                 | (Panic p, st3) \<Rightarrow> (Panic p, st3)
                 | (Blocked, st3) \<Rightarrow> (Blocked, st3))))"

definition flattenTimeseries ::
  "'t url_env \<Rightarrow> 't Request \<Rightarrow> string \<Rightarrow> 'c \<Rightarrow> store \<Rightarrow>
     ('c flattenedRequest list \<times> gerror option) outcome \<times> store"
where
  "flattenTimeseries env req rawURI client st =
     (case Timeseries req of
        None \<Rightarrow>
          (case flatten env req rawURI client st of
             (Return (Inl e), st') \<Rightarrow>
               (Return ([], Some (Wrapf ''failed to flatten request: '' e [])), st')
           | (Return (Inr flatReq), st') \<Rightarrow> (Return ([flatReq], None), st')
           | (Panic p, st') \<Rightarrow> (Panic p, st')
           | (Blocked, st') \<Rightarrow> (Blocked, st'))
      | Some ts \<Rightarrow> flattenTimeseries_loop env req ts rawURI client (chunks ts) [] st)"

text \<open>
  Whether a call of \<open>flattenTimeseries\<close> gets as far as \<open>newFetchConfig\<close>, and the
  context it puts around an error of \<open>newFetchConfig\<close>.
\<close>

definition builds_fetch_config :: "'t Request \<Rightarrow> bool" where
  "builds_fetch_config req \<longleftrightarrow>
     (case Timeseries req of
        None \<Rightarrow> True
      | Some ts \<Rightarrow> chunks ts \<noteq> [] \<and> Layout ts \<noteq> None \<and> Query req \<noteq> None)"

definition flatten_context :: "'t Request \<Rightarrow> gerror \<Rightarrow> gerror" where
  "flatten_context req e =
     (case Timeseries req of
        None \<Rightarrow> Wrapf ''failed to flatten request: '' (Wrapf ''failed to create fetch config: '' e []) []
      | Some ts \<Rightarrow> Wrapf ''failed to create fetch config: '' e [])"

text \<open>
  Examples: library functions that join by concatenation, refuse the endpoint \<open>%\<close>, parse
  a URL without a space to one without a query, and format a time (a string here) by
  putting the layout before it; a store with one empty query map; a request for two chunks.
\<close>

text \<open>
  The values that the query of the \<open>i\<close>-th flattened request of a result binds a key
  to; none when the call did not return that request.
\<close>

definition flattened_query ::
  "('c flattenedRequest list \<times> gerror option) outcome \<Rightarrow> nat \<Rightarrow> string \<Rightarrow> string list option"
where
  "flattened_query out i key =
     (case out of
        Return (requests, e) \<Rightarrow>
          (if i < length requests then RawQuery (URL (fetchConfig (requests ! i))) key else None)
      | _ \<Rightarrow> None)"

definition example_env :: "string url_env" where
  "example_env =
     \<lparr>JoinPath = (\<lambda>base elem. if elem = ''%'' then Inl (Errorf ''invalid URL escape'')
                               else Inr (base @ elem)),
      Parse = (\<lambda>raw. if CHR '' '' \<in> set raw then Inl (Errorf ''invalid character in host name'')
                     else Inr \<lparr>Location = raw, RawQuery = Map.empty\<rparr>),
      Format = (\<lambda>t layout. layout @ t)\<rparr>"

definition example_store :: store where
  "example_store = \<lparr>maps = [0 \<mapsto> Map.empty], limiters = []\<rparr>"

definition example_timeseries :: "string timeseries" where
  "example_timeseries =
     \<lparr>StartName = ''start'', EndName = ''end'', Layout = Some ''T'',
      chunks = [(''1'', ''2''), (''2'', ''3'')]\<rparr>"

definition example_request :: "string Request" where
  "example_request =
     \<lparr>Method = ''GET'', Endpoint = ''/candles'', Query = Some 0,
      Timeseries = Some example_timeseries, Table = Some ''candles'',
      RateLimitConfig = Some \<lparr>Period = Some 1000000000, Burst = Some 5\<rparr>\<rparr>"

section \<open>Facts about backend selection\<close>

lemma Contains_iff_sublist: "Contains s substr \<longleftrightarrow> sublist substr s"
  by (induction s) (simp_all add: sublist_Cons_right)

lemma Contains_iff: "Contains s substr \<longleftrightarrow> (\<exists>before after. s = before @ substr @ after)"
  by (simp add: Contains_iff_sublist sublist_def)

lemma Scheme_MongoType: "Scheme MongoType = ''mongodb''"
  by (simp add: Scheme_def)

lemma Scheme_PostgresType: "Scheme PostgresType = ''postgresql''"
  by (simp add: Scheme_def MongoType_def PostgresType_def)

lemma Error_DNSNotSupportedError: "Error (DNSNotSupportedError connStr) = ''dns is not supported: '' @ connStr"
  by (simp add: DNSNotSupportedError_def ErrDNSNotSupported_def)

text \<open>
  Claim C7. \<open>New\<close> tests the connection string for the substring \<open>mongodb\<close> first and
  hands it to the document-store constructor; failing that it tests for \<open>postgresql\<close>
  and hands it to the relational constructor; a string with neither substring gets no
  storage handle at all but the error \<open>DNSNotSupportedError\<close>, which wraps
  \<open>ErrDNSNotSupported\<close> and whose message ends with the offending string.
\<close>

theorem New_dispatch:
  "((\<exists>before after. connStr = before @ ''mongodb'' @ after) \<longrightarrow>
      New Connect NewPostgres connStr = map_sum id MongoStorage (NewMongo Connect connStr)) \<and>
   (\<not> (\<exists>before after. connStr = before @ ''mongodb'' @ after) \<and>
    (\<exists>before after. connStr = before @ ''postgresql'' @ after) \<longrightarrow>
      New Connect NewPostgres connStr = map_sum id PostgresStorage (NewPostgres connStr)) \<and>
   (\<not> (\<exists>before after. connStr = before @ ''mongodb'' @ after) \<and>
    \<not> (\<exists>before after. connStr = before @ ''postgresql'' @ after) \<longrightarrow>
      New Connect NewPostgres connStr = Inl (DNSNotSupportedError connStr) \<and>
      Unwrap (DNSNotSupportedError connStr) = Some ErrDNSNotSupported \<and>
      Error (DNSNotSupportedError connStr) = ''dns is not supported: '' @ connStr)"
  unfolding Contains_iff [symmetric]
  by (simp add: New_def Scheme_MongoType Scheme_PostgresType DNSNotSupportedError_def
      ErrDNSNotSupported_def)

theorem New_dispatch_witness:
  "New (\<lambda>uri. Inr ()) (\<lambda>uri. Inr ()) ''mongodb://u:p@host/db'' =
     Inr (MongoStorage \<lparr>Client = (), dns = ''mongodb://u:p@host/db'', lifetime = 60000000000\<rparr>) \<and>
   New (\<lambda>uri. Inr ()) (\<lambda>uri. Inr ()) ''postgresql://u:p@host/db'' = Inr (PostgresStorage ()) \<and>
   New (\<lambda>uri. Inr ()) (\<lambda>uri. Inr ()) ''redis://host'' = Inl (DNSNotSupportedError ''redis://host'') \<and>
   Error (DNSNotSupportedError ''redis://host'') = ''dns is not supported: redis://host''"
proof -
  let ?C = "\<lambda>uri::string. Inr () :: gerror + unit"
  let ?P = "\<lambda>uri::string. Inr () :: gerror + unit"
  have m: "\<exists>before after. ''mongodb://u:p@host/db'' = before @ ''mongodb'' @ after"
    unfolding Contains_iff [symmetric] by simp
  have nm: "\<not> (\<exists>before after. ''postgresql://u:p@host/db'' = before @ ''mongodb'' @ after)"
    unfolding Contains_iff [symmetric] by simp
  have p: "\<exists>before after. ''postgresql://u:p@host/db'' = before @ ''postgresql'' @ after"
    unfolding Contains_iff [symmetric] by simp
  have rm: "\<not> (\<exists>before after. ''redis://host'' = before @ ''mongodb'' @ after)"
    unfolding Contains_iff [symmetric] by simp
  have rp: "\<not> (\<exists>before after. ''redis://host'' = before @ ''postgresql'' @ after)"
    unfolding Contains_iff [symmetric] by simp
  from m New_dispatch [of "''mongodb://u:p@host/db''" ?C ?P]
  have 1: "New ?C ?P ''mongodb://u:p@host/db'' =
      map_sum id MongoStorage (NewMongo ?C ''mongodb://u:p@host/db'')"
    by blast
  from nm p New_dispatch [of "''postgresql://u:p@host/db''" ?C ?P]
  have 2: "New ?C ?P ''postgresql://u:p@host/db'' =
      map_sum id PostgresStorage (?P ''postgresql://u:p@host/db'')"
    by blast
  from rm rp New_dispatch [of "''redis://host''" ?C ?P]
  have 3: "New ?C ?P ''redis://host'' = Inl (DNSNotSupportedError ''redis://host'') \<and>
      Error (DNSNotSupportedError ''redis://host'') = ''dns is not supported: '' @ ''redis://host''"
    by blast
  from 1 2 3 show ?thesis
    by (simp add: NewMongo_def defaultMDBLifetime_def)
qed

section \<open>Facts about the transaction worker\<close>

lemma worker_after_append:
  "worker_after ctx before w = Some w' \<Longrightarrow>
   receiveWrites_loop ctx (before @ evs) w = receiveWrites_loop ctx evs w'"
proof (induction ctx before w rule: worker_after.induct)
  case (4 ctx opr evs' w)
  then show ?case by (auto split: sum.splits)
qed simp_all







lemma worker_after_ticks:
  "worker_after ctx (replicate n Tick) w = Some (w\<lparr>ticked := ticked w \<or> 0 < n\<rparr>)"
  by (induction n arbitrary: w) simp_all



lemma startSession_delivers:
  "(case startSession m aborted ch sig txn s of
      (Return u, txn', s') \<Rightarrow> length (txn_done txn') = length (txn_done txn) + 1
    | (out, txn', s') \<Rightarrow> txn_done txn' = txn_done txn)"
  by (simp add: startSession_def split: prod.splits outcome.splits)

text \<open>
  Claim C1. The claim asks that every operation sent before a successful commit is applied
  exactly once, in the order sent, also across a rotation. The worker's run below receives
  operations 0, 1 and 2, with one tick of the lifetime ticker before operation 1, and then
  the commit signal: the rotation commits and begins anew, but the operation received in
  that iteration is never applied, and the commit succeeds without it.
\<close>

theorem rotation_drops_operation:
  "StartTx_worker log_mongo (Errorf ''aborted'')
     [Send (apply_ok 0), Tick, Send (apply_ok 1), Send (apply_ok 2), Close] (Signal True) [] =
   (Return (), \<lparr>txn_done = [None]\<rparr>, [Begun, Applied 0, Committed, Begun, Applied 2, Committed])"
  by (simp add: StartTx_worker_def StartTx_def startSession_def UseSession_def session_fn_def
      receiveWrites_def receive_def in_transaction_def log_mongo_def log_sctx_def apply_ok_def)




text \<open>
  Claim C6, as stated, fails on the code: after an explicit rollback (the value false on
  the commit channel) the worker aborts the transaction and, the abort having succeeded,
  delivers nil on the done channel, not an aborted error.
\<close>

theorem rollback_returns_nil:
  "StartTx_worker log_mongo (Errorf ''aborted'') [Send (apply_ok 0), Close] (Signal False) [] =
   (Return (), \<lparr>txn_done = [None]\<rparr>, [Begun, Applied 0, Aborted])"
  by (simp add: StartTx_worker_def StartTx_def startSession_def UseSession_def session_fn_def
      receiveWrites_def receive_def in_transaction_def log_mongo_def log_sctx_def apply_ok_def)

text \<open>
  Claim C6, amended. When the session and its first transaction start and no queued
  operation fails, then on the commit signal the worker commits the current transaction and
  delivers nil if the commit succeeds (the commit's error, wrapped, otherwise); on any
  other signal (false sent, or the commit channel closed) it aborts the current transaction
  and delivers nil if the abort succeeds, \<open>ErrTransactionAborted\<close> only if the abort
  itself fails. In every run, a worker that returns has delivered exactly one result on the
  done channel, and one that panics or blocks has delivered none.
\<close>

theorem terminal_result:
  "(StartSession (Client m) s = (None, s1) \<and>
    StartTransaction (NewSessionContext (Client m)) s1 = (None, s2) \<and>
    receiveWrites (NewSessionContext (Client m)) ch s2 = (Return None, s3) \<longrightarrow>
      StartTx_worker m aborted ch (Signal True) s =
        (case CommitTransaction (NewSessionContext (Client m)) s3 of
           (None, s4) \<Rightarrow> (Return (), \<lparr>txn_done = [None]\<rparr>, EndSession (Client m) s4)
         | (Some e, s4) \<Rightarrow>
             (Return (), \<lparr>txn_done = [Some (Wrapf ''commit transaction: '' e [])]\<rparr>,
              EndSession (Client m) s4)) \<and>
      (sig = Signal False \<or> sig = ChanClosed \<longrightarrow>
         StartTx_worker m aborted ch sig s =
           (case AbortTransaction (NewSessionContext (Client m)) s3 of
              (None, s4) \<Rightarrow> (Return (), \<lparr>txn_done = [None]\<rparr>, EndSession (Client m) s4)
            | (Some e, s4) \<Rightarrow>
                (Return (), \<lparr>txn_done = [Some aborted]\<rparr>, EndSession (Client m) s4)))) \<and>
   (case StartTx_worker m aborted ch sig s of
      (Return u, txn', s') \<Rightarrow> length (txn_done txn') = 1
    | (out, txn', s') \<Rightarrow> txn_done txn' = [])"
proof -
  have once: "(case StartTx_worker m aborted ch sig s of
      (Return u, txn', s') \<Rightarrow> length (txn_done txn') = 1
    | (out, txn', s') \<Rightarrow> txn_done txn' = [])"
    using startSession_delivers [where m = m and aborted = aborted and ch = ch and sig = sig
        and txn = "\<lparr>txn_done = []\<rparr>" and s = s]
    by (simp add: StartTx_worker_def StartTx_def split: prod.splits outcome.splits)
  have run: "StartTx_worker m aborted ch (Signal True) s =
        (case CommitTransaction (NewSessionContext (Client m)) s3 of
           (None, s4) \<Rightarrow> (Return (), \<lparr>txn_done = [None]\<rparr>, EndSession (Client m) s4)
         | (Some e, s4) \<Rightarrow>
             (Return (), \<lparr>txn_done = [Some (Wrapf ''commit transaction: '' e [])]\<rparr>,
              EndSession (Client m) s4))"
    if "StartSession (Client m) s = (None, s1)"
      and "StartTransaction (NewSessionContext (Client m)) s1 = (None, s2)"
      and "receiveWrites (NewSessionContext (Client m)) ch s2 = (Return None, s3)"
    using that
    by (simp add: StartTx_worker_def StartTx_def startSession_def UseSession_def session_fn_def
        split: prod.splits option.splits)
  have stop: "StartTx_worker m aborted ch sig s =
           (case AbortTransaction (NewSessionContext (Client m)) s3 of
              (None, s4) \<Rightarrow> (Return (), \<lparr>txn_done = [None]\<rparr>, EndSession (Client m) s4)
            | (Some e, s4) \<Rightarrow>
                (Return (), \<lparr>txn_done = [Some aborted]\<rparr>, EndSession (Client m) s4))"
    if "StartSession (Client m) s = (None, s1)"
      and "StartTransaction (NewSessionContext (Client m)) s1 = (None, s2)"
      and "receiveWrites (NewSessionContext (Client m)) ch s2 = (Return None, s3)"
      and "sig = Signal False \<or> sig = ChanClosed"
    using that
    by (auto simp add: StartTx_worker_def StartTx_def startSession_def UseSession_def session_fn_def
        split: prod.splits option.splits)
  from once run stop show ?thesis by blast
qed

theorem terminal_result_witness:
  "StartSession (Client log_mongo) [] = (None, []) \<and>
   StartTransaction (NewSessionContext (Client log_mongo)) [] = (None, [Begun]) \<and>
   receiveWrites (NewSessionContext (Client log_mongo)) [Send (apply_ok 0), Close] [Begun] =
     (Return None, [Begun, Applied 0]) \<and>
   StartTx_worker log_mongo (Errorf ''aborted'') [Send (apply_ok 0), Close] (Signal True) [] =
     (Return (), \<lparr>txn_done = [None]\<rparr>, [Begun, Applied 0, Committed]) \<and>
   StartTx_worker log_mongo (Errorf ''aborted'') [Send (apply_ok 0), Close] ChanClosed [] =
     (Return (), \<lparr>txn_done = [None]\<rparr>, [Begun, Applied 0, Aborted])"
proof -
  let ?ch = "[Send (apply_ok 0), Close]"
  have h1: "StartSession (Client log_mongo) [] = (None, [])"
    by (simp add: log_mongo_def)
  have h2: "StartTransaction (NewSessionContext (Client log_mongo)) [] = (None, [Begun])"
    by (simp add: log_mongo_def log_sctx_def)
  have h3: "receiveWrites (NewSessionContext (Client log_mongo)) ?ch [Begun] =
      (Return None, [Begun, Applied 0])"
    by (simp add: log_mongo_def receiveWrites_def receive_def apply_ok_def in_transaction_def)
  have c: "CommitTransaction (NewSessionContext (Client log_mongo)) [Begun, Applied 0] =
      (None, [Begun, Applied 0, Committed])"
    and a: "AbortTransaction (NewSessionContext (Client log_mongo)) [Begun, Applied 0] =
      (None, [Begun, Applied 0, Aborted])"
    and e: "EndSession (Client log_mongo) = (\<lambda>s. s)"
    by (simp_all add: log_mongo_def log_sctx_def)
  from terminal_result [where m = log_mongo and s = "[]" and ?s1.0 = "[]" and ?s2.0 = "[Begun]"
      and ch = ?ch and ?s3.0 = "[Begun, Applied 0]" and aborted = "Errorf ''aborted''"
      and sig = ChanClosed] h1 h2 h3
  show ?thesis by (simp add: c a e)
qed

text \<open>
  Claim C10. The ticker is looked at only in the iteration that an operation starts.
  During an interval in which the ticker fires \<open>n\<close> times and no operation arrives, for
  any \<open>n\<close>, the worker calls nothing on the session: the loop goes on from the same
  backend and the same latched error, with only the waiting tick noted, and if the channel
  is closed next, \<open>receiveWrites\<close> leaves the loop without any rotation.
\<close>

theorem idle_ticks_do_not_rotate:
  "worker_after ctx (replicate n Tick) w = Some (w\<lparr>ticked := ticked w \<or> 0 < n\<rparr>) \<and>
   receiveWrites_loop ctx (replicate n Tick @ evs) w =
     receiveWrites_loop ctx evs (w\<lparr>ticked := ticked w \<or> 0 < n\<rparr>) \<and>
   receiveWrites_loop ctx (replicate n Tick @ Close # evs) w = (Return (err w), backend w)"
proof -
  have a: "worker_after ctx (replicate n Tick) w = Some (w\<lparr>ticked := ticked w \<or> 0 < n\<rparr>)"
    by (rule worker_after_ticks)
  have b: "receiveWrites_loop ctx (replicate n Tick @ evs') w =
      receiveWrites_loop ctx evs' (w\<lparr>ticked := ticked w \<or> 0 < n\<rparr>)" for evs'
    by (rule worker_after_append [OF a])
  show ?thesis using a b [of evs] b [of "Close # evs"] by simp
qed

section \<open>Facts about Upsert\<close>

lemma Upsert_models_all:
  "map assign records = map Inr docs \<Longrightarrow>
   Upsert_models assign records models = Inr (models @ map NewUpdateOneModel docs)"
proof (induction records arbitrary: models docs)
  case Nil
  then show ?case by simp
next
  case (Cons r records)
  then obtain d ds where "docs = d # ds" and "assign r = Inr d" and "map assign records = map Inr ds"
    by (cases docs) auto
  with Cons.IH [of ds] show ?case by simp
qed

text \<open>
  Claim C9. When the request decodes to no record, \<open>Upsert\<close> succeeds with a response
  whose two counts are zero and leaves the backend as it was, whatever the bulk write of
  the backend would do: no write is issued. When it decodes to records, each of which gets
  its document, \<open>Upsert\<close> issues one bulk write of one model per record and reports the
  matched count and the upserted count of that bulk write, each in its own field.
\<close>

theorem Upsert_counts:
  "(DecodeUpsertRecords env req = Inr [] \<longrightarrow>
      Upsert env m req s = (Inr \<lparr>MatchedCount = 0, UpsertedCount = 0\<rparr>, s)) \<and>
   (DecodeUpsertRecords env req = Inr records \<and> records \<noteq> [] \<and>
    map (AssingRecordBSONDocument env) records = map Inr docs \<and>
    ParseAndValidate env (dns m) = Inr database \<and>
    BulkWrite env database (request_Table env req) (map NewUpdateOneModel docs) s = (Inr bwr, s') \<longrightarrow>
      Upsert env m req s =
        (Inr \<lparr>MatchedCount = bulk_MatchedCount bwr, UpsertedCount = bulk_UpsertedCount bwr\<rparr>, s'))"
  by (simp add: Upsert_def Upsert_models_all)


theorem Upsert_counts_witness:
  "DecodeUpsertRecords example_upsert_env (''candles'', []) = Inr [] \<and>
   Upsert example_upsert_env \<lparr>Client = (), dns = ''mongodb://host/db'', lifetime = 1\<rparr>
     (''candles'', []) [] = (Inr \<lparr>MatchedCount = 0, UpsertedCount = 0\<rparr>, []) \<and>
   DecodeUpsertRecords example_upsert_env (''candles'', [1, 2, 3]) = Inr [1, 2, 3] \<and>
   Upsert example_upsert_env \<lparr>Client = (), dns = ''mongodb://host/db'', lifetime = 1\<rparr>
     (''candles'', [1, 2, 3]) [] =
     (Inr \<lparr>MatchedCount = 0, UpsertedCount = 3\<rparr>, [(''db'', ''candles'', 3)])"
proof -
  let ?m = "\<lparr>Client = (), dns = ''mongodb://host/db'', lifetime = 1\<rparr>"
  let ?bwr = "\<lparr>bulk_MatchedCount = 0, bulk_UpsertedCount = 3\<rparr>"
  have d0: "DecodeUpsertRecords example_upsert_env (''candles'', []) = Inr []"
    and d3: "DecodeUpsertRecords example_upsert_env (''candles'', [1, 2, 3]) = Inr [1, 2, 3]"
    and a: "map (AssingRecordBSONDocument example_upsert_env) [1, 2, 3] = map Inr [1, 2, 3]"
    and p: "ParseAndValidate example_upsert_env (dns ?m) = Inr ''db''"
    and w: "BulkWrite example_upsert_env ''db'' (request_Table example_upsert_env (''candles'', [1, 2, 3]))
        (map NewUpdateOneModel [1, 2, 3]) [] = (Inr ?bwr, [(''db'', ''candles'', 3)])"
    by (simp_all add: example_upsert_env_def)
  have 0: "Upsert example_upsert_env ?m (''candles'', []) [] =
      (Inr \<lparr>MatchedCount = 0, UpsertedCount = 0\<rparr>, [])"
    using Upsert_counts [where env = example_upsert_env and req = "(''candles'', [])" and m = ?m
        and s = "[]"] d0
    by blast
  have 3: "Upsert example_upsert_env ?m (''candles'', [1, 2, 3]) [] =
      (Inr \<lparr>MatchedCount = bulk_MatchedCount ?bwr, UpsertedCount = bulk_UpsertedCount ?bwr\<rparr>,
       [(''db'', ''candles'', 3)])"
    using Upsert_counts [where env = example_upsert_env and req = "(''candles'', [1, 2, 3])"
        and m = ?m and s = "[]" and records = "[1, 2, 3]" and docs = "[1, 2, 3]"
        and database = "''db''" and bwr = ?bwr and s' = "[(''db'', ''candles'', 3)]"] d3 a p w
    by blast
  from 0 3 d0 d3 show ?thesis by simp
qed

section \<open>Facts about flattening\<close>

lemma query_of_set_query: "query_of (set_query r key v st) r = (query_of st r)(key \<mapsto> v)"
  by (simp add: query_of_def set_query_def)

lemma limiters_set_query: "limiters (set_query r key v st) = limiters st"
  by (simp add: set_query_def)

lemma newFetchConfig_ok:
  assumes "JoinPath env rawURI (Endpoint req) = Inr joined" and "Parse env joined = Inr uri"
    and "RateLimitConfig req = Some config" and "Period config = Some period" and "Burst config = Some b"
  shows "newFetchConfig env req rawURI client st =
    (Return (Inr \<lparr>FetchMethod = Method req,
                  URL = (case Query req of
                           None \<Rightarrow> uri
                         | Some r \<Rightarrow> uri\<lparr>RawQuery := set_all (query_of st r) (RawQuery uri)\<rparr>),
                  C = client, RateLimiter = length (limiters st)\<rparr>),
     st\<lparr>limiters := limiters st @ [\<lparr>every = period, burst = b\<rparr>]\<rparr>)"
  using assms by (simp add: newFetchConfig_def NewLimiter_def)

lemma query_of_limiters_update: "query_of (st\<lparr>limiters := ls\<rparr>) r = query_of st r"
  by (simp add: query_of_def)

lemma flattenTimeseries_loop_ok:
  assumes "JoinPath env rawURI (Endpoint req) = Inr joined" and "Parse env joined = Inr uri"
    and "RateLimitConfig req = Some config" and "Period config = Some period" and "Burst config = Some b"
    and "Layout ts = Some layout" and "Query req = Some r"
  shows "\<exists>rs st'. flattenTimeseries_loop env req ts rawURI client cs requests st =
           (Return (requests @ rs, None), st') \<and>
         length rs = length cs \<and>
         (\<forall>i<length cs.
            (StartName ts \<noteq> EndName ts \<longrightarrow>
               RawQuery (URL (fetchConfig (rs ! i))) (StartName ts) =
                 Some [Format env (fst (cs ! i)) layout]) \<and>
            RawQuery (URL (fetchConfig (rs ! i))) (EndName ts) =
              Some [Format env (snd (cs ! i)) layout])"
proof (induction cs arbitrary: requests st)
  case Nil
  then show ?case by simp
next
  case (Cons c cs)
  let ?st1 = "set_query r (StartName ts) (Format env (fst c) layout) st"
  let ?st2 = "set_query r (EndName ts) (Format env (snd c) layout) ?st1"
  let ?fc = "\<lparr>FetchMethod = Method req,
              URL = uri\<lparr>RawQuery := set_all (query_of ?st2 r) (RawQuery uri)\<rparr>,
              C = client, RateLimiter = length (limiters ?st2)\<rparr>"
  let ?fr = "\<lparr>fetchConfig = ?fc, table = Table req\<rparr>"
  let ?st3 = "?st2\<lparr>limiters := limiters ?st2 @ [\<lparr>every = period, burst = b\<rparr>]\<rparr>"
  have nfc: "newFetchConfig env req rawURI client ?st2 = (Return (Inr ?fc), ?st3)"
    using newFetchConfig_ok [OF assms(1-5), of client ?st2] assms(7) by simp
  have step: "flattenTimeseries_loop env req ts rawURI client (c # cs) requests st =
      flattenTimeseries_loop env req ts rawURI client cs (requests @ [?fr]) ?st3"
    using assms(6,7) nfc by (simp add: Let_def)
  obtain rs st' where run: "flattenTimeseries_loop env req ts rawURI client cs (requests @ [?fr]) ?st3 =
      (Return ((requests @ [?fr]) @ rs, None), st')"
    and len: "length rs = length cs"
    and each: "\<forall>i<length cs.
            (StartName ts \<noteq> EndName ts \<longrightarrow>
               RawQuery (URL (fetchConfig (rs ! i))) (StartName ts) =
                 Some [Format env (fst (cs ! i)) layout]) \<and>
            RawQuery (URL (fetchConfig (rs ! i))) (EndName ts) =
              Some [Format env (snd (cs ! i)) layout]"
    using Cons.IH [of "requests @ [?fr]" ?st3] by blast
  have first: "(StartName ts \<noteq> EndName ts \<longrightarrow>
               RawQuery (URL (fetchConfig ?fr)) (StartName ts) = Some [Format env (fst c) layout]) \<and>
            RawQuery (URL (fetchConfig ?fr)) (EndName ts) = Some [Format env (snd c) layout]"
    by (simp add: set_all_def query_of_set_query)
  have "\<forall>i<length (c # cs).
            (StartName ts \<noteq> EndName ts \<longrightarrow>
               RawQuery (URL (fetchConfig ((?fr # rs) ! i))) (StartName ts) =
                 Some [Format env (fst ((c # cs) ! i)) layout]) \<and>
            RawQuery (URL (fetchConfig ((?fr # rs) ! i))) (EndName ts) =
              Some [Format env (snd ((c # cs) ! i)) layout]"
  proof (intro allI impI)
    fix i assume "i < length (c # cs)"
    then show "(StartName ts \<noteq> EndName ts \<longrightarrow>
               RawQuery (URL (fetchConfig ((?fr # rs) ! i))) (StartName ts) =
                 Some [Format env (fst ((c # cs) ! i)) layout]) \<and>
            RawQuery (URL (fetchConfig ((?fr # rs) ! i))) (EndName ts) =
              Some [Format env (snd ((c # cs) ! i)) layout]"
      using first each by (cases i) simp_all
  qed
  moreover have "flattenTimeseries_loop env req ts rawURI client (c # cs) requests st =
      (Return (requests @ (?fr # rs), None), st')"
    using step run by simp
  moreover have "length (?fr # rs) = length (c # cs)"
    using len by simp
  ultimately show ?case by blast
qed

lemma flattenTimeseries_loop_error:
  "flattenTimeseries_loop env req ts rawURI client cs requests st = (Return (rs, Some e), st') \<Longrightarrow>
   rs = []"
proof (induction cs arbitrary: requests st)
  case Nil
  then show ?case by simp
next
  case (Cons c cs)
  then show ?case
    by (simp add: Let_def split: option.splits prod.splits outcome.splits sum.splits)
qed

lemma newFetchConfig_join_error:
  "JoinPath env rawURI (Endpoint req) = Inl e \<Longrightarrow>
   newFetchConfig env req rawURI client st =
     (Return (Inl (Wrapf ''failed to join URI and endpoint: '' e [])), st)"
  by (simp add: newFetchConfig_def)

lemma newFetchConfig_parse_error:
  "JoinPath env rawURI (Endpoint req) = Inr joined \<Longrightarrow> Parse env joined = Inl e \<Longrightarrow>
   newFetchConfig env req rawURI client st = (Return (Inl (Wrapf ''failed to parse URL: '' e [])), st)"
  by (simp add: newFetchConfig_def)

lemma newFetchConfig_nil:
  "JoinPath env rawURI (Endpoint req) = Inr joined \<Longrightarrow> Parse env joined = Inr uri \<Longrightarrow>
   RateLimitConfig req = None \<Longrightarrow>
   newFetchConfig env req rawURI client st = (Panic NilDereference, st)"
  by (simp add: newFetchConfig_def Let_def)

lemma flattenTimeseries_of_newFetchConfig:
  assumes "builds_fetch_config req"
    and "\<And>st. newFetchConfig env req rawURI client st = (out, st)"
  shows "fst (flattenTimeseries env req rawURI client st) =
     (case out of
        Return (Inl e) \<Rightarrow> Return ([], Some (flatten_context req e))
      | Return (Inr fc) \<Rightarrow> fst (flattenTimeseries env req rawURI client st)
      | Panic p \<Rightarrow> Panic p
      | Blocked \<Rightarrow> Blocked)"
proof (cases "Timeseries req")
  case None
  then show ?thesis
    by (simp add: flattenTimeseries_def flatten_def flatten_context_def assms(2)
        split: outcome.splits sum.splits)
next
  case (Some ts)
  with assms(1) obtain c cs layout r where "chunks ts = c # cs" "Layout ts = Some layout"
    "Query req = Some r"
    by (cases "chunks ts") (auto simp: builds_fetch_config_def)
  with Some show ?thesis
    by (simp add: flattenTimeseries_def flatten_context_def assms(2) Let_def
        split: outcome.splits sum.splits)
qed

lemma example_run:
  "flattenTimeseries example_env example_request ''https://api'' () example_store =
   (Return
     ([\<lparr>fetchConfig = \<lparr>FetchMethod = ''GET'',
          URL = \<lparr>Location = ''https://api/candles'',
                 RawQuery = set_all [''start'' \<mapsto> ''T1'', ''end'' \<mapsto> ''T2''] Map.empty\<rparr>,
          C = (), RateLimiter = 0\<rparr>, table = Some ''candles''\<rparr>,
       \<lparr>fetchConfig = \<lparr>FetchMethod = ''GET'',
          URL = \<lparr>Location = ''https://api/candles'',
                 RawQuery = set_all [''start'' \<mapsto> ''T2'', ''end'' \<mapsto> ''T3''] Map.empty\<rparr>,
          C = (), RateLimiter = 1\<rparr>, table = Some ''candles''\<rparr>], None),
    \<lparr>maps = [0 \<mapsto> [''start'' \<mapsto> ''T2'', ''end'' \<mapsto> ''T3'']],
     limiters = [\<lparr>every = 1000000000, burst = 5\<rparr>, \<lparr>every = 1000000000, burst = 5\<rparr>]\<rparr>)"
  by (simp add: flattenTimeseries_def example_request_def example_timeseries_def example_env_def
      example_store_def newFetchConfig_def NewLimiter_def set_query_def query_of_def Let_def)

text \<open>
  Claim C2, as stated, fails on the code. Each of these requests carries a timeseries of
  two chunks, and none is flattened as the claim says: with a nil query map, a nil layout
  or no rate limit configuration the call panics; with a base URI and endpoint that do not
  join it returns an error and no request; and when the start name is the same key as the
  end name, the first request's query binds that key to the end of the first chunk, not to
  its start.
\<close>

theorem timeseries_request_not_flattened:
  "length (chunks example_timeseries) = 2 \<and>
   fst (flattenTimeseries example_env (example_request\<lparr>Query := None\<rparr>) ''https://api'' ()
     example_store) = Panic NilMapAssignment \<and>
   fst (flattenTimeseries example_env
     (example_request\<lparr>Timeseries := Some (example_timeseries\<lparr>Layout := None\<rparr>)\<rparr>) ''https://api'' ()
     example_store) = Panic NilDereference \<and>
   fst (flattenTimeseries example_env (example_request\<lparr>RateLimitConfig := None\<rparr>) ''https://api'' ()
     example_store) = Panic NilDereference \<and>
   fst (flattenTimeseries example_env (example_request\<lparr>Endpoint := ''%''\<rparr>) ''https://api'' ()
     example_store) =
     Return ([], Some (Wrapf ''failed to create fetch config: ''
       (Wrapf ''failed to join URI and endpoint: '' (Errorf ''invalid URL escape'') []) [])) \<and>
   flattened_query (fst (flattenTimeseries example_env
     (example_request\<lparr>Timeseries := Some (example_timeseries\<lparr>StartName := ''end''\<rparr>)\<rparr>)
     ''https://api'' () example_store)) 0 ''end'' = Some [''T2'']"
  by (simp add: flattenTimeseries_def example_request_def example_timeseries_def example_env_def
      example_store_def newFetchConfig_def NewLimiter_def set_query_def query_of_def Let_def
      flattened_query_def set_all_def)

text \<open>
  Claim C2, amended. Take a request with a timeseries whose layout, query map and rate
  limit (period and burst) are there, and a base URI that joins with the endpoint and
  parses. Then \<open>flattenTimeseries\<close> returns, without error, as many flattened requests
  as the timeseries has chunks, in the order of the chunks, and in the URL of the \<open>i\<close>-th
  one the query binds the end name to the end of the \<open>i\<close>-th chunk and, when the start
  name is another key than the end name, the start name to its start, each formatted with
  the layout.
\<close>

theorem flattenTimeseries_chunks:
  assumes "Timeseries req = Some ts" and "Layout ts = Some layout" and "Query req = Some r"
    and "RateLimitConfig req = Some config" and "Period config = Some period" and "Burst config = Some b"
    and "JoinPath env rawURI (Endpoint req) = Inr joined" and "Parse env joined = Inr uri"
  shows "\<exists>requests st'.
           flattenTimeseries env req rawURI client st = (Return (requests, None), st') \<and>
           length requests = length (chunks ts) \<and>
           (\<forall>i<length (chunks ts).
              (StartName ts \<noteq> EndName ts \<longrightarrow>
                 RawQuery (URL (fetchConfig (requests ! i))) (StartName ts) =
                   Some [Format env (fst (chunks ts ! i)) layout]) \<and>
              RawQuery (URL (fetchConfig (requests ! i))) (EndName ts) =
                Some [Format env (snd (chunks ts ! i)) layout])"
  using flattenTimeseries_loop_ok [OF assms(7,8,4,5,6,2,3), of client "chunks ts" "[]" st] assms(1)
  by (simp add: flattenTimeseries_def)


theorem flattenTimeseries_chunks_witness:
  "Timeseries example_request = Some example_timeseries \<and>
   Layout example_timeseries = Some ''T'' \<and> Query example_request = Some 0 \<and>
   RateLimitConfig example_request = Some \<lparr>Period = Some 1000000000, Burst = Some 5\<rparr> \<and>
   JoinPath example_env ''https://api'' (Endpoint example_request) = Inr ''https://api/candles'' \<and>
   Parse example_env ''https://api/candles'' =
     Inr \<lparr>Location = ''https://api/candles'', RawQuery = Map.empty\<rparr> \<and>
   (\<exists>requests st'.
      flattenTimeseries example_env example_request ''https://api'' () example_store =
        (Return (requests, None), st') \<and>
      length requests = 2 \<and>
      RawQuery (URL (fetchConfig (requests ! 0))) ''start'' = Some [''T1''] \<and>
      RawQuery (URL (fetchConfig (requests ! 0))) ''end'' = Some [''T2''] \<and>
      RawQuery (URL (fetchConfig (requests ! 1))) ''start'' = Some [''T2''] \<and>
      RawQuery (URL (fetchConfig (requests ! 1))) ''end'' = Some [''T3''])"
proof -
  let ?config = "\<lparr>Period = Some (1000000000::int), Burst = Some (5::int)\<rparr>"
  let ?uri = "\<lparr>Location = ''https://api/candles'', RawQuery = Map.empty\<rparr>"
  have h1: "Timeseries example_request = Some example_timeseries"
    and h3: "Query example_request = Some 0"
    and h4: "RateLimitConfig example_request = Some ?config"
    by (simp_all add: example_request_def)
  have h2: "Layout example_timeseries = Some ''T''"
    by (simp add: example_timeseries_def)
  have h5: "Period ?config = Some 1000000000" and h6: "Burst ?config = Some 5"
    by simp_all
  have h7: "JoinPath example_env ''https://api'' (Endpoint example_request) = Inr ''https://api/candles''"
    by (simp add: example_env_def example_request_def)
  have h8: "Parse example_env ''https://api/candles'' = Inr ?uri"
    by (simp add: example_env_def)
  obtain requests st' where
    run: "flattenTimeseries example_env example_request ''https://api'' () example_store =
        (Return (requests, None), st')"
    and len: "length requests = length (chunks example_timeseries)"
    and each: "\<forall>i<length (chunks example_timeseries).
              (StartName example_timeseries \<noteq> EndName example_timeseries \<longrightarrow>
                 RawQuery (URL (fetchConfig (requests ! i))) (StartName example_timeseries) =
                   Some [Format example_env (fst (chunks example_timeseries ! i)) ''T'']) \<and>
              RawQuery (URL (fetchConfig (requests ! i))) (EndName example_timeseries) =
                Some [Format example_env (snd (chunks example_timeseries ! i)) ''T'']"
    using flattenTimeseries_chunks [OF h1 h2 h3 h4 h5 h6 h7 h8, of "()" example_store] by blast
  have c: "chunks example_timeseries = [(''1'', ''2''), (''2'', ''3'')]"
    and n: "StartName example_timeseries = ''start''" "EndName example_timeseries = ''end''"
    by (simp_all add: example_timeseries_def)
  have f: "Format example_env t ''T'' = ''T'' @ t" for t
    by (simp add: example_env_def)
  from each have "RawQuery (URL (fetchConfig (requests ! 0))) ''start'' = Some [''T1''] \<and>
      RawQuery (URL (fetchConfig (requests ! 0))) ''end'' = Some [''T2'']"
    by (simp add: c n f)
  moreover from each have "RawQuery (URL (fetchConfig (requests ! 1))) ''start'' = Some [''T2''] \<and>
      RawQuery (URL (fetchConfig (requests ! 1))) ''end'' = Some [''T3'']"
    by (simp add: c n f)
  moreover from len have "length requests = 2" by (simp add: c)
  ultimately show ?thesis using run h1 h2 h3 h4 h7 h8 by blast
qed

text \<open>
  Claim C3. The claim asks for one rate limiter per request, shared by all its chunks. On
  the example request, of two chunks, flattening starts from a store without limiters and
  makes two: the first flattened request holds limiter 0, the second limiter 1.
\<close>

theorem limiter_per_chunk:
  "(case fst (flattenTimeseries example_env example_request ''https://api'' () example_store) of
      Return (requests, e) \<Rightarrow> map (\<lambda>flatReq. RateLimiter (fetchConfig flatReq)) requests
    | _ \<Rightarrow> []) = [0, 1] \<and>
   limiters example_store = [] \<and>
   limiters (snd (flattenTimeseries example_env example_request ''https://api'' () example_store)) =
     [\<lparr>every = 1000000000, burst = 5\<rparr>, \<lparr>every = 1000000000, burst = 5\<rparr>]"
  by (simp add: example_run) (simp add: example_store_def)

text \<open>
  Claim C4. The claim asks that every chunk gets a copy of the query map and that the
  request's own map is left as it was. On the example request, whose query map (under the
  reference 0) is empty before, that very map binds the start and end names to the bounds
  of the last chunk after flattening.
\<close>

theorem request_query_overwritten:
  "Query example_request = Some 0 \<and>
   query_of example_store 0 ''start'' = None \<and>
   query_of example_store 0 ''end'' = None \<and>
   query_of (snd (flattenTimeseries example_env example_request ''https://api'' () example_store)) 0
     ''start'' = Some ''T2'' \<and>
   query_of (snd (flattenTimeseries example_env example_request ''https://api'' () example_store)) 0
     ''end'' = Some ''T3''"
  by (simp add: example_run) (simp add: example_store_def example_request_def query_of_def)

text \<open>
  Claim C8, as stated, fails on the code: flattening the example request without its rate
  limit configuration does not return an error, it panics on the nil pointer.
\<close>

theorem missing_rate_limit_panics:
  "fst (flattenTimeseries example_env (example_request\<lparr>RateLimitConfig := None\<rparr>) ''https://api'' ()
     example_store) = Panic NilDereference"
  by (simp add: flattenTimeseries_def example_request_def example_timeseries_def example_env_def
      example_store_def newFetchConfig_def Let_def)


text \<open>
  Claim C8, amended. An error returned by \<open>flattenTimeseries\<close> never comes with a list
  of flattened requests. When the call builds a fetch configuration at all (no timeseries,
  or a first chunk with layout and query map there), a failure to join the base URI and
  the endpoint, or to parse the joined URL, is returned as an error with its context and
  an empty list. The absence of the rate limit configuration is not reported: once the
  URL is joined and parsed, the call panics on the nil pointer.
\<close>

theorem flattening_errors:
  "(\<forall>requests e st'.
      flattenTimeseries env req rawURI client st = (Return (requests, Some e), st') \<longrightarrow>
      requests = []) \<and>
   (builds_fetch_config req \<and> JoinPath env rawURI (Endpoint req) = Inl e \<longrightarrow>
      fst (flattenTimeseries env req rawURI client st) =
        Return ([], Some (flatten_context req (Wrapf ''failed to join URI and endpoint: '' e [])))) \<and>
   (builds_fetch_config req \<and> JoinPath env rawURI (Endpoint req) = Inr joined \<and>
    Parse env joined = Inl e \<longrightarrow>
      fst (flattenTimeseries env req rawURI client st) =
        Return ([], Some (flatten_context req (Wrapf ''failed to parse URL: '' e [])))) \<and>
   (builds_fetch_config req \<and> JoinPath env rawURI (Endpoint req) = Inr joined \<and>
    Parse env joined = Inr uri \<and> RateLimitConfig req = None \<longrightarrow>
      fst (flattenTimeseries env req rawURI client st) = Panic NilDereference)"
proof -
  have a: "requests = []"
    if "flattenTimeseries env req rawURI client st = (Return (requests, Some e), st')"
    for requests e st'
  proof (cases "Timeseries req")
    case None
    with that show ?thesis
      by (simp add: flattenTimeseries_def split: prod.splits outcome.splits sum.splits)
  next
    case (Some ts)
    with that have "flattenTimeseries_loop env req ts rawURI client (chunks ts) [] st =
        (Return (requests, Some e), st')"
      by (simp add: flattenTimeseries_def)
    then show ?thesis by (rule flattenTimeseries_loop_error)
  qed
  have b: "fst (flattenTimeseries env req rawURI client st) =
        Return ([], Some (flatten_context req (Wrapf ''failed to join URI and endpoint: '' e [])))"
    if "builds_fetch_config req" and "JoinPath env rawURI (Endpoint req) = Inl e"
    using flattenTimeseries_of_newFetchConfig [OF that(1) newFetchConfig_join_error [OF that(2)]]
    by simp
  have c: "fst (flattenTimeseries env req rawURI client st) =
        Return ([], Some (flatten_context req (Wrapf ''failed to parse URL: '' e [])))"
    if "builds_fetch_config req" and "JoinPath env rawURI (Endpoint req) = Inr joined"
      and "Parse env joined = Inl e"
    using flattenTimeseries_of_newFetchConfig
      [OF that(1) newFetchConfig_parse_error [OF that(2,3)]]
    by simp
  have d: "fst (flattenTimeseries env req rawURI client st) = Panic NilDereference"
    if "builds_fetch_config req" and "JoinPath env rawURI (Endpoint req) = Inr joined"
      and "Parse env joined = Inr uri" and "RateLimitConfig req = None"
    using flattenTimeseries_of_newFetchConfig
      [OF that(1) newFetchConfig_nil [OF that(2,3,4)]]
    by simp
  from a b c d show ?thesis by blast
qed

theorem flattening_errors_witness:
  "builds_fetch_config (example_request\<lparr>Endpoint := ''%''\<rparr>) \<and>
   JoinPath example_env ''https://api'' ''%'' = Inl (Errorf ''invalid URL escape'') \<and>
   fst (flattenTimeseries example_env (example_request\<lparr>Endpoint := ''%''\<rparr>) ''https://api'' ()
          example_store) =
     Return ([], Some (Wrapf ''failed to create fetch config: ''
       (Wrapf ''failed to join URI and endpoint: '' (Errorf ''invalid URL escape'') []) [])) \<and>
   Parse example_env ''https://my api/candles'' = Inl (Errorf ''invalid character in host name'') \<and>
   fst (flattenTimeseries example_env (example_request\<lparr>Timeseries := None\<rparr>) ''https://my api'' ()
          example_store) =
     Return ([], Some (Wrapf ''failed to flatten request: ''
       (Wrapf ''failed to create fetch config: ''
         (Wrapf ''failed to parse URL: '' (Errorf ''invalid character in host name'') []) []) [])) \<and>
   fst (flattenTimeseries example_env (example_request\<lparr>Timeseries := None, RateLimitConfig := None\<rparr>)
          ''https://api'' () example_store) = Panic NilDereference"
proof -
  let ?r1 = "example_request\<lparr>Endpoint := ''%''\<rparr>"
  let ?r2 = "example_request\<lparr>Timeseries := None\<rparr>"
  let ?r3 = "example_request\<lparr>Timeseries := None, RateLimitConfig := None\<rparr>"
  let ?uri = "\<lparr>Location = ''https://api/candles'', RawQuery = Map.empty\<rparr>"
  have b1: "builds_fetch_config ?r1" and b2: "builds_fetch_config ?r2"
    and b3: "builds_fetch_config ?r3"
    by (simp_all add: builds_fetch_config_def example_request_def example_timeseries_def)
  have j1: "JoinPath example_env ''https://api'' (Endpoint ?r1) = Inl (Errorf ''invalid URL escape'')"
    and j2: "JoinPath example_env ''https://my api'' (Endpoint ?r2) = Inr ''https://my api/candles''"
    and j3: "JoinPath example_env ''https://api'' (Endpoint ?r3) = Inr ''https://api/candles''"
    by (simp_all add: example_env_def example_request_def)
  have p2: "Parse example_env ''https://my api/candles'' = Inl (Errorf ''invalid character in host name'')"
    and p3: "Parse example_env ''https://api/candles'' = Inr ?uri"
    by (simp_all add: example_env_def)
  have n3: "RateLimitConfig ?r3 = None" by simp
  have 1: "fst (flattenTimeseries example_env ?r1 ''https://api'' () example_store) =
      Return ([], Some (flatten_context ?r1
        (Wrapf ''failed to join URI and endpoint: '' (Errorf ''invalid URL escape'') [])))"
    using flattening_errors [where env = example_env and req = ?r1 and rawURI = "''https://api''"
        and e = "Errorf ''invalid URL escape''" and client = "()" and st = example_store] b1 j1
    by blast
  have 2: "fst (flattenTimeseries example_env ?r2 ''https://my api'' () example_store) =
      Return ([], Some (flatten_context ?r2
        (Wrapf ''failed to parse URL: '' (Errorf ''invalid character in host name'') [])))"
    using flattening_errors [where env = example_env and req = ?r2 and rawURI = "''https://my api''"
        and joined = "''https://my api/candles''"
        and e = "Errorf ''invalid character in host name''" and client = "()"
        and st = example_store] b2 j2 p2
    by blast
  have 3: "fst (flattenTimeseries example_env ?r3 ''https://api'' () example_store) =
      Panic NilDereference"
    using flattening_errors [where env = example_env and req = ?r3 and rawURI = "''https://api''"
        and joined = "''https://api/candles''" and uri = ?uri and client = "()"
        and st = example_store] b3 j3 p3 n3
    by blast
  have c1: "flatten_context ?r1 x = Wrapf ''failed to create fetch config: '' x []"
    and c2: "flatten_context ?r2 x =
      Wrapf ''failed to flatten request: '' (Wrapf ''failed to create fetch config: '' x []) []"
    for x
    by (simp_all add: flatten_context_def example_request_def)
  from 1 2 3 b1 j1 p2 show ?thesis
    by (simp add: c1 c2)
qed

end
